theory Spec2Isabelle
  imports Complex_Main "HOL-Library.AList" "HOL-Library.Multiset"
begin

section \<open>JavaScript values as the sanitizer sees them\<close>

text \<open>
  The result of \<^verbatim>\<open>JSON.parse\<close> is untyped (\<^verbatim>\<open>any\<close>). It is modelled by the datatype
  below. Numbers are exact rationals: a finite double is identified with the rational it
  denotes, rounding and the infinities are not modelled, and \<^verbatim>\<open>NaN\<close> only occurs as
  the failure value \<open>None\<close> of \<^verbatim>\<open>parseFloat\<close>. An object is the list of its own
  properties in insertion order.
\<close>

datatype jsval =
    JUndefined
  | JNull
  | JBool bool
  | JNum rat
  | JStr string
  | JArr "jsval list"
  | JObj "(string \<times> jsval) list"

datatype js_exn = TypeError

datatype failure = ReconciliationFailed js_exn

text \<open>Decimal rendering of an array index or a length, as a template literal does it.\<close>

fun show_nat :: "nat \<Rightarrow> string" where
  "show_nat n =
     (if n < 10 then [''0123456789'' ! n]
      else show_nat (n div 10) @ [''0123456789'' ! (n mod 10)])"

declare show_nat.simps [simp del]

text \<open>Truthiness, as the operator \<^verbatim>\<open>||\<close> tests it.\<close>

fun truthy :: "jsval \<Rightarrow> bool" where
  "truthy JUndefined = False"
| "truthy JNull = False"
| "truthy (JBool b) = b"
| "truthy (JNum x) = (x \<noteq> 0)"
| "truthy (JStr s) = (s \<noteq> [])"
| "truthy (JArr xs) = True"
| "truthy (JObj kvs) = True"

definition nullish :: "jsval \<Rightarrow> bool" where
  "nullish v = (v = JUndefined \<or> v = JNull)"

text \<open>
  Reading one of the property names the sanitizer uses (\<^verbatim>\<open>amount\<close>,
  \<^verbatim>\<open>bankTransaction\<close>, \<^verbatim>\<open>summary\<close>, ...; none of them is an index, \<^verbatim>\<open>length\<close> or a
  prototype member): an object yields its own property or \<^verbatim>\<open>undefined\<close>; a string,
  number, boolean or array yields \<^verbatim>\<open>undefined\<close>.
\<close>

fun ownProp :: "jsval \<Rightarrow> string \<Rightarrow> jsval" where
  "ownProp (JObj kvs) k = (case map_of kvs k of None \<Rightarrow> JUndefined | Some v \<Rightarrow> v)"
| "ownProp v k = JUndefined"

text \<open>\<^verbatim>\<open>v.k\<close>: reading a property of \<^verbatim>\<open>undefined\<close> or \<^verbatim>\<open>null\<close> throws a TypeError.\<close>

definition getProp :: "jsval \<Rightarrow> string \<Rightarrow> js_exn + jsval" where
  "getProp v k = (if nullish v then Inl TypeError else Inr (ownProp v k))"

text \<open>
  The own enumerable properties that an object spread \<^verbatim>\<open>{...v}\<close> copies: those of an
  object, the indexed elements of an array, the indexed characters of a string, and
  nothing for \<^verbatim>\<open>undefined\<close>, \<^verbatim>\<open>null\<close>, booleans and numbers.
\<close>

fun spread :: "jsval \<Rightarrow> (string \<times> jsval) list" where
  "spread (JObj kvs) = kvs"
| "spread (JArr xs) = zip (map show_nat [0..<length xs]) xs"
| "spread (JStr s) = zip (map show_nat [0..<length s]) (map (\<lambda>c. JStr [c]) s)"
| "spread v = []"

text \<open>Sequencing of computations that may throw.\<close>

fun bindE :: "'e + 'a \<Rightarrow> ('a \<Rightarrow> 'e + 'b) \<Rightarrow> 'e + 'b" where
  "bindE (Inl e) f = Inl e"
| "bindE (Inr x) f = f x"

fun mapE :: "('a \<Rightarrow> 'e + 'b) \<Rightarrow> 'a list \<Rightarrow> 'e + 'b list" where
  "mapE f [] = Inr []"
| "mapE f (x # xs) = bindE (f x) (\<lambda>y. bindE (mapE f xs) (\<lambda>ys. Inr (y # ys)))"

text \<open>
  \<^verbatim>\<open>v.map(f)\<close>: only an array has \<^verbatim>\<open>map\<close>; on any other value the call throws a
  TypeError (a value parsed from JSON is never callable).
\<close>

fun js_map :: "(jsval \<Rightarrow> js_exn + jsval) \<Rightarrow> jsval \<Rightarrow> js_exn + jsval list" where
  "js_map f (JArr xs) = mapE f xs"
| "js_map f v = Inl TypeError"

text \<open>\<^verbatim>\<open>xs.reduce(f, init)\<close>, a left fold.\<close>

fun js_reduce :: "(jsval \<Rightarrow> jsval \<Rightarrow> js_exn + jsval) \<Rightarrow> jsval list \<Rightarrow> jsval \<Rightarrow> js_exn + jsval" where
  "js_reduce f [] s = Inr s"
| "js_reduce f (x # xs) s = bindE (f s x) (js_reduce f xs)"

text \<open>
  \<^verbatim>\<open>s + x\<close> on two numbers. The sanitizer only ever adds numbers (lemma
  \<open>sumAmounts_outTx\<close> below); the other operand kinds are not modelled and yield
  \<open>JUndefined\<close>.
\<close>

fun js_add :: "jsval \<Rightarrow> jsval \<Rightarrow> jsval" where
  "js_add (JNum a) (JNum b) = JNum (a + b)"
| "js_add u v = JUndefined"

section \<open>The sanitizer of \<^verbatim>\<open>reconcileFiles\<close>\<close>

text \<open>
  \<^verbatim>\<open>parseFloat\<close> is a builtin of the language, not code of the repository: it is the
  parameter \<open>pf\<close> of the model (\<open>None\<close> is \<^verbatim>\<open>NaN\<close>), so every theorem holds for
  whatever it returns.

  \<^verbatim>\<open>const parseAmount = (val: any) => Math.abs(parseFloat(val) || 0);\<close>
\<close>

definition orZero :: "rat option \<Rightarrow> rat" where
  "orZero r = (case r of None \<Rightarrow> 0 | Some x \<Rightarrow> (if x = 0 then 0 else x))"

definition parseAmount :: "(jsval \<Rightarrow> rat option) \<Rightarrow> jsval \<Rightarrow> rat" where
  "parseAmount pf val = \<bar>orZero (pf val)\<bar>"

text \<open>\<^verbatim>\<open>(v || [])\<close>\<close>

definition orEmpty :: "jsval \<Rightarrow> jsval" where
  "orEmpty v = (if truthy v then v else JArr [])"

text \<open>\<^verbatim>\<open>{ ...t, amount: parseAmount(t.amount) }\<close>\<close>

definition sanitizeTx :: "(jsval \<Rightarrow> rat option) \<Rightarrow> jsval \<Rightarrow> js_exn + jsval" where
  "sanitizeTx pf t =
     bindE (getProp t ''amount'')
       (\<lambda>a. Inr (JObj (AList.update ''amount'' (JNum (parseAmount pf a)) (spread t))))"

definition sanitizePair :: "(jsval \<Rightarrow> rat option) \<Rightarrow> jsval \<Rightarrow> js_exn + jsval" where
  "sanitizePair pf p =
     bindE (getProp p ''bankTransaction'') (\<lambda>b.
     bindE (sanitizeTx pf b) (\<lambda>b'.
     bindE (getProp p ''ledgerTransaction'') (\<lambda>l.
     bindE (sanitizeTx pf l) (\<lambda>l'.
       Inr (JObj [(''bankTransaction'', b'), (''ledgerTransaction'', l')])))))"

text \<open>\<^verbatim>\<open>(s, i) => s + i.bankTransaction.amount\<close> and \<^verbatim>\<open>(s, i) => s + i.amount\<close>\<close>

definition addBankAmount :: "jsval \<Rightarrow> jsval \<Rightarrow> js_exn + jsval" where
  "addBankAmount s i =
     bindE (getProp i ''bankTransaction'') (\<lambda>b.
     bindE (getProp b ''amount'') (\<lambda>a. Inr (js_add s a)))"

definition addAmount :: "jsval \<Rightarrow> jsval \<Rightarrow> js_exn + jsval" where
  "addAmount s i = bindE (getProp i ''amount'') (\<lambda>a. Inr (js_add s a))"

text \<open>An object literal's later properties overwrite the spread ones, in order.\<close>

definition setProps :: "(string \<times> jsval) list \<Rightarrow> (string \<times> jsval) list \<Rightarrow> (string \<times> jsval) list" where
  "setProps new old = foldl (\<lambda>obj (k, v). AList.update k v obj) old new"

text \<open>
  The body of the \<^verbatim>\<open>try\<close> block after \<^verbatim>\<open>JSON.parse\<close>, from
  \<^verbatim>\<open>// Sanitization & Recalculation\<close> to the \<^verbatim>\<open>return\<close>.
\<close>

definition sanitize :: "(jsval \<Rightarrow> rat option) \<Rightarrow> jsval \<Rightarrow> js_exn + jsval" where
  "sanitize pf rawResult =
     bindE (getProp rawResult ''matchedTransactions'') (\<lambda>m.
     bindE (js_map (sanitizePair pf) (orEmpty m)) (\<lambda>matchedTransactions.
     bindE (getProp rawResult ''unmatchedBankTransactions'') (\<lambda>ub.
     bindE (js_map (sanitizeTx pf) (orEmpty ub)) (\<lambda>unmatchedBankTransactions.
     bindE (getProp rawResult ''unmatchedLedgerEntries'') (\<lambda>ul.
     bindE (js_map (sanitizeTx pf) (orEmpty ul)) (\<lambda>unmatchedLedgerEntries.
     bindE (getProp rawResult ''summary'') (\<lambda>rawSummary.
     bindE (js_reduce addBankAmount matchedTransactions (JNum 0)) (\<lambda>matchedTotal.
     bindE (js_reduce addAmount unmatchedBankTransactions (JNum 0)) (\<lambda>unmatchedBankTotal.
     bindE (js_reduce addAmount unmatchedLedgerEntries (JNum 0)) (\<lambda>unmatchedLedgerTotal.
       Inr (JObj
         [(''summary'', JObj (setProps
            [(''matchedCount'', JNum (of_nat (length matchedTransactions))),
             (''unmatchedBankCount'', JNum (of_nat (length unmatchedBankTransactions))),
             (''unmatchedLedgerCount'', JNum (of_nat (length unmatchedLedgerEntries))),
             (''matchedTotal'', matchedTotal),
             (''unmatchedBankTotal'', unmatchedBankTotal),
             (''unmatchedLedgerTotal'', unmatchedLedgerTotal)]
            (spread rawSummary))),
          (''matchedTransactions'', JArr matchedTransactions),
          (''unmatchedBankTransactions'', JArr unmatchedBankTransactions),
          (''unmatchedLedgerEntries'', JArr unmatchedLedgerEntries)])))))))))))"

text \<open>
  The \<^verbatim>\<open>catch\<close> clause rethrows whatever the body threw as
  \<^verbatim>\<open>Reconciliation failed: ...\<close>.
\<close>

definition reconcileFiles_sanitize :: "(jsval \<Rightarrow> rat option) \<Rightarrow> jsval \<Rightarrow> failure + jsval" where
  "reconcileFiles_sanitize pf rawResult =
     (case sanitize pf rawResult of
        Inl e \<Rightarrow> Inl (ReconciliationFailed e)
      | Inr r \<Rightarrow> Inr r)"

subsection \<open>What the sanitizer returns, as total functions\<close>

text \<open>
  The value each mapping step yields when it does not throw, and the condition under which
  it does not. These are derived from the definitions above (lemma \<open>sanitize_eq\<close>); the
  claims are stated on \<open>sanitize\<close> and \<open>reconcileFiles_sanitize\<close>.
\<close>

definition outTx :: "(jsval \<Rightarrow> rat option) \<Rightarrow> jsval \<Rightarrow> jsval" where
  "outTx pf t = JObj (AList.update ''amount'' (JNum (parseAmount pf (ownProp t ''amount''))) (spread t))"

definition outPair :: "(jsval \<Rightarrow> rat option) \<Rightarrow> jsval \<Rightarrow> jsval" where
  "outPair pf p =
     JObj [(''bankTransaction'', outTx pf (ownProp p ''bankTransaction'')),
           (''ledgerTransaction'', outTx pf (ownProp p ''ledgerTransaction''))]"

definition okTx :: "jsval \<Rightarrow> bool" where
  "okTx t = (\<not> nullish t)"

definition okPair :: "jsval \<Rightarrow> bool" where
  "okPair p =
     (\<not> nullish p \<and> \<not> nullish (ownProp p ''bankTransaction'')
      \<and> \<not> nullish (ownProp p ''ledgerTransaction''))"

text \<open>The elements of \<^verbatim>\<open>(v || [])\<close> when that is an array.\<close>

definition items :: "jsval \<Rightarrow> jsval list" where
  "items v = (case orEmpty v of JArr xs \<Rightarrow> xs | _ \<Rightarrow> [])"

text \<open>A collection is usable when it is falsy (absent) or an array of usable elements.\<close>

definition okColl :: "(jsval \<Rightarrow> bool) \<Rightarrow> jsval \<Rightarrow> bool" where
  "okColl ok v = (case orEmpty v of JArr xs \<Rightarrow> list_all ok xs | _ \<Rightarrow> False)"

definition wellShaped :: "jsval \<Rightarrow> bool" where
  "wellShaped rawResult =
     (\<not> nullish rawResult
      \<and> okColl okPair (ownProp rawResult ''matchedTransactions'')
      \<and> okColl okTx (ownProp rawResult ''unmatchedBankTransactions'')
      \<and> okColl okTx (ownProp rawResult ''unmatchedLedgerEntries''))"

definition amountOf :: "jsval \<Rightarrow> jsval" where
  "amountOf t = ownProp t ''amount''"

definition outSummary :: "(jsval \<Rightarrow> rat option) \<Rightarrow> jsval \<Rightarrow> (string \<times> jsval) list" where
  "outSummary pf rawResult =
     setProps
       [(''matchedCount'', JNum (of_nat (length (items (ownProp rawResult ''matchedTransactions''))))),
        (''unmatchedBankCount'', JNum (of_nat (length (items (ownProp rawResult ''unmatchedBankTransactions''))))),
        (''unmatchedLedgerCount'', JNum (of_nat (length (items (ownProp rawResult ''unmatchedLedgerEntries''))))),
        (''matchedTotal'', JNum (sum_list (map (\<lambda>p. parseAmount pf (amountOf (ownProp p ''bankTransaction'')))
            (items (ownProp rawResult ''matchedTransactions''))))),
        (''unmatchedBankTotal'', JNum (sum_list (map (\<lambda>t. parseAmount pf (amountOf t))
            (items (ownProp rawResult ''unmatchedBankTransactions''))))),
        (''unmatchedLedgerTotal'', JNum (sum_list (map (\<lambda>t. parseAmount pf (amountOf t))
            (items (ownProp rawResult ''unmatchedLedgerEntries'')))))]
       (spread (ownProp rawResult ''summary''))"

definition outResult :: "(jsval \<Rightarrow> rat option) \<Rightarrow> jsval \<Rightarrow> jsval" where
  "outResult pf rawResult =
     JObj [(''summary'', JObj (outSummary pf rawResult)),
           (''matchedTransactions'', JArr (map (outPair pf) (items (ownProp rawResult ''matchedTransactions'')))),
           (''unmatchedBankTransactions'', JArr (map (outTx pf) (items (ownProp rawResult ''unmatchedBankTransactions'')))),
           (''unmatchedLedgerEntries'', JArr (map (outTx pf) (items (ownProp rawResult ''unmatchedLedgerEntries''))))]"

subsection \<open>Readers of a sanitized result\<close>

definition elems :: "jsval \<Rightarrow> jsval list" where
  "elems v = (case v of JArr xs \<Rightarrow> xs | _ \<Rightarrow> [])"

definition summaryOf :: "jsval \<Rightarrow> jsval" where
  "summaryOf r = ownProp r ''summary''"

definition matchedOf :: "jsval \<Rightarrow> jsval list" where
  "matchedOf r = elems (ownProp r ''matchedTransactions'')"

definition unmatchedBankOf :: "jsval \<Rightarrow> jsval list" where
  "unmatchedBankOf r = elems (ownProp r ''unmatchedBankTransactions'')"

definition unmatchedLedgerOf :: "jsval \<Rightarrow> jsval list" where
  "unmatchedLedgerOf r = elems (ownProp r ''unmatchedLedgerEntries'')"

definition bankLeg :: "jsval \<Rightarrow> jsval" where
  "bankLeg p = ownProp p ''bankTransaction''"

definition ledgerLeg :: "jsval \<Rightarrow> jsval" where
  "ledgerLeg p = ownProp p ''ledgerTransaction''"

text \<open>The summary fields the sanitizer recomputes.\<close>

definition recomputedKeys :: "string list" where
  "recomputedKeys = [''matchedCount'', ''unmatchedBankCount'', ''unmatchedLedgerCount'',
     ''matchedTotal'', ''unmatchedBankTotal'', ''unmatchedLedgerTotal'']"

text \<open>
  A concrete response: one matched pair whose legs disagree (a string amount on the bank
  leg, a negative one on the ledger leg), one unmatched bank item, and the pass-through
  fields of the summary.
\<close>

definition example_raw :: jsval where
  "example_raw = JObj
     [(''matchedTransactions'', JArr [JObj
         [(''bankTransaction'', JObj [(''date'', JStr ''2024-03-05''), (''description'', JStr ''Acme''),
             (''amount'', JStr ''3500.00''), (''type'', JStr ''credit'')]),
          (''ledgerTransaction'', JObj [(''date'', JStr ''2024-03-05''), (''description'', JStr ''Acme Corp''),
             (''amount'', JNum (- 3400)), (''type'', JStr ''debit'')])]]),
      (''unmatchedBankTransactions'', JArr
         [JObj [(''date'', JStr ''2024-03-10''), (''description'', JStr ''Fee''),
                (''amount'', JNum 25), (''type'', JStr ''debit'')]]),
      (''unmatchedLedgerEntries'', JArr []),
      (''summary'', JObj [(''ledgerBalance'', JNum 7079.5), (''bankBalance'', JNum 7079.5),
                          (''asAtDate'', JStr ''2024-03-31'')])]"

definition example_out :: jsval where
  "example_out = JObj
     [(''summary'', JObj
         [(''ledgerBalance'', JNum 7079.5), (''bankBalance'', JNum 7079.5),
          (''asAtDate'', JStr ''2024-03-31''), (''matchedCount'', JNum 1),
          (''unmatchedBankCount'', JNum 1), (''unmatchedLedgerCount'', JNum 0),
          (''matchedTotal'', JNum 3500), (''unmatchedBankTotal'', JNum 25),
          (''unmatchedLedgerTotal'', JNum 0)]),
      (''matchedTransactions'', JArr [JObj
         [(''bankTransaction'', JObj [(''date'', JStr ''2024-03-05''), (''description'', JStr ''Acme''),
             (''amount'', JNum 3500), (''type'', JStr ''credit'')]),
          (''ledgerTransaction'', JObj [(''date'', JStr ''2024-03-05''), (''description'', JStr ''Acme Corp''),
             (''amount'', JNum 3400), (''type'', JStr ''debit'')])]]),
      (''unmatchedBankTransactions'', JArr
         [JObj [(''date'', JStr ''2024-03-10''), (''description'', JStr ''Fee''),
                (''amount'', JNum 25), (''type'', JStr ''debit'')]]),
      (''unmatchedLedgerEntries'', JArr [])]"


text \<open>
  A stand-in for \<^verbatim>\<open>parseFloat\<close> at concrete inputs: a number is returned as it is, a
  string is read as the longest prefix \<^verbatim>\<open>[ws][+|-]digits[.digits]\<close> (exponents and
  \<^verbatim>\<open>Infinity\<close> are not read), an array as its first element, and everything else
  (\<^verbatim>\<open>undefined\<close>, \<^verbatim>\<open>null\<close>, booleans, objects) is \<^verbatim>\<open>NaN\<close>.
\<close>

definition is_digit :: "char \<Rightarrow> bool" where
  "is_digit c = (48 \<le> (of_char c :: nat) \<and> (of_char c :: nat) \<le> 57)"

definition is_space :: "char \<Rightarrow> bool" where
  "is_space c = ((of_char c :: nat) = 32 \<or> (9 \<le> (of_char c :: nat) \<and> (of_char c :: nat) \<le> 13))"

definition digits_val :: "string \<Rightarrow> nat" where
  "digits_val ds = foldl (\<lambda>n c. 10 * n + (of_char c - 48)) 0 ds"

definition strDecimalPrefix :: "string \<Rightarrow> rat option" where
  "strDecimalPrefix s =
     (let s1 = dropWhile is_space s;
          neg = (take 1 s1 = ''-'');
          s2 = (if take 1 s1 = ''-'' \<or> take 1 s1 = ''+'' then drop 1 s1 else s1);
          ip = takeWhile is_digit s2;
          s3 = dropWhile is_digit s2;
          fp = (if take 1 s3 = ''.'' then takeWhile is_digit (drop 1 s3) else [])
      in if ip = [] \<and> fp = [] then None
         else Some ((if neg then - 1 else 1) *
                (of_nat (digits_val ip) + of_nat (digits_val fp) / 10 ^ length fp)))"

fun parseFloat_dec :: "jsval \<Rightarrow> rat option" where
  "parseFloat_dec (JNum x) = Some x"
| "parseFloat_dec (JStr s) = strDecimalPrefix s"
| "parseFloat_dec (JArr (x # xs)) = parseFloat_dec x"
| "parseFloat_dec v = None"

section \<open>The typed result (\<^verbatim>\<open>types.ts\<close>)\<close>

text \<open>
  The components behind the sanitizer take a \<^verbatim>\<open>ReconciliationResult\<close>. Every
  \<^verbatim>\<open>number\<close> is a rational.
\<close>

datatype tx_type = Credit | Debit

datatype tx_status = Default | Investigating | Cleared | Reviewed

record transaction =
  date :: string
  description :: string
  amount :: rat
  type :: tx_type
  status :: "tx_status option"

record matched_pair =
  bankTransaction :: transaction
  ledgerTransaction :: transaction

record summary =
  matchedCount :: rat
  unmatchedBankCount :: rat
  unmatchedLedgerCount :: rat
  matchedTotal :: rat
  unmatchedBankTotal :: rat
  unmatchedLedgerTotal :: rat
  ledgerBalance :: rat
  bankBalance :: rat
  asAtDate :: string

record reconciliation_result =
  summary :: summary
  matchedTransactions :: "matched_pair list"
  unmatchedBankTransactions :: "transaction list"
  unmatchedLedgerEntries :: "transaction list"

record pdf_export_config =
  includeSummary :: bool
  includeMatches :: bool
  includeUnmatchedBank :: bool
  includeUnmatchedLedger :: bool
  onlySelectedItems :: bool

section \<open>Review state (\<^verbatim>\<open>ReconciliationResults.tsx\<close>)\<close>

text \<open>
  A \<^verbatim>\<open>Set<number>\<close> is the list of its members in insertion order, without
  repetition; \<^verbatim>\<open>size\<close> is \<open>length\<close> and \<^verbatim>\<open>has\<close> is membership.
\<close>

definition Set_add :: "nat \<Rightarrow> nat list \<Rightarrow> nat list" where
  "Set_add x s = (if x \<in> set s then s else s @ [x])"

definition Set_delete :: "nat \<Rightarrow> nat list \<Rightarrow> nat list" where
  "Set_delete x s = removeAll x s"

definition new_Set :: "nat list \<Rightarrow> nat list" where
  "new_Set xs = foldl (\<lambda>s x. Set_add x s) [] xs"

datatype status_filter = All | Only tx_status

datatype collection = Bank | Ledger

text \<open>
  The \<^verbatim>\<open>useState\<close> cells of the component. A \<^verbatim>\<open>Record<number, status>\<close> is a map
  from indices to statuses.
\<close>

record review_state =
  searchTerm :: string
  statusFilter :: status_filter
  selectedBankIndices :: "nat list"
  selectedLedgerIndices :: "nat list"
  bankStatuses :: "nat \<rightharpoonup> tx_status"
  ledgerStatuses :: "nat \<rightharpoonup> tx_status"

record indexed_tx =
  tx :: transaction
  idx :: nat

text \<open>
  \<^verbatim>\<open>s.startsWith(t)\<close>: \<open>t\<close> is a prefix of \<open>s\<close>; \<^verbatim>\<open>s.includes(t)\<close>: \<open>t\<close> occurs
  in \<open>s\<close> as a contiguous substring.
\<close>

fun startsWith :: "string \<Rightarrow> string \<Rightarrow> bool" where
  "startsWith s [] = True"
| "startsWith [] (c # t) = False"
| "startsWith (d # s) (c # t) = (d = c \<and> startsWith s t)"

fun str_includes :: "string \<Rightarrow> string \<Rightarrow> bool" where
  "str_includes [] t = (t = [])"
| "str_includes (c # s) t = (startsWith (c # s) t \<or> str_includes s t)"

text \<open>\<^verbatim>\<open>toLowerCase\<close> on the ASCII letters.\<close>

definition toLowerCase :: "string \<Rightarrow> string" where
  "toLowerCase s =
     map (\<lambda>c. if 65 \<le> (of_char c :: nat) \<and> (of_char c :: nat) \<le> 90
               then char_of ((of_char c :: nat) + 32) else c) s"

text \<open>
  The two \<^verbatim>\<open>useMemo\<close> filters over the unmatched collections. \<open>numStr\<close> stands for the
  builtin \<^verbatim>\<open>String(n)\<close> on numbers.
\<close>

definition filteredUnmatched ::
  "(rat \<Rightarrow> string) \<Rightarrow> string \<Rightarrow> (nat \<rightharpoonup> tx_status) \<Rightarrow> status_filter
     \<Rightarrow> transaction list \<Rightarrow> indexed_tx list" where
  "filteredUnmatched numStr needle statuses sf txs =
     filter
       (\<lambda>it.
          let matchesSearch =
                (needle = [] \<or> str_includes (toLowerCase (description (tx it))) (toLowerCase needle)
                 \<or> str_includes (date (tx it)) needle
                 \<or> str_includes (numStr (amount (tx it))) needle);
              currentStatus = (case statuses (idx it) of None \<Rightarrow> Default | Some st \<Rightarrow> st);
              matchesStatus = (sf = All \<or> Only currentStatus = sf)
          in matchesSearch \<and> matchesStatus)
       (map (\<lambda>(t, i). \<lparr>tx = t, idx = i\<rparr>) (zip txs [0..<length txs]))"

definition filteredUnmatchedBank ::
  "(rat \<Rightarrow> string) \<Rightarrow> reconciliation_result \<Rightarrow> review_state \<Rightarrow> indexed_tx list" where
  "filteredUnmatchedBank numStr result st =
     filteredUnmatched numStr (searchTerm st) (bankStatuses st) (statusFilter st)
       (unmatchedBankTransactions result)"

definition filteredUnmatchedLedger ::
  "(rat \<Rightarrow> string) \<Rightarrow> reconciliation_result \<Rightarrow> review_state \<Rightarrow> indexed_tx list" where
  "filteredUnmatchedLedger numStr result st =
     filteredUnmatched numStr (searchTerm st) (ledgerStatuses st) (statusFilter st)
       (unmatchedLedgerEntries result)"

definition toggleBankSelection :: "nat \<Rightarrow> review_state \<Rightarrow> review_state" where
  "toggleBankSelection i st =
     (let next = selectedBankIndices st
      in st\<lparr>selectedBankIndices := (if i \<in> set next then Set_delete i next else Set_add i next)\<rparr>)"

definition toggleLedgerSelection :: "nat \<Rightarrow> review_state \<Rightarrow> review_state" where
  "toggleLedgerSelection i st =
     (let next = selectedLedgerIndices st
      in st\<lparr>selectedLedgerIndices := (if i \<in> set next then Set_delete i next else Set_add i next)\<rparr>)"

definition selectAllUnmatchedBank ::
  "(rat \<Rightarrow> string) \<Rightarrow> reconciliation_result \<Rightarrow> review_state \<Rightarrow> review_state" where
  "selectAllUnmatchedBank numStr result st =
     (let shown = filteredUnmatchedBank numStr result st
      in if length (selectedBankIndices st) = length shown \<and> length shown > 0
         then st\<lparr>selectedBankIndices := new_Set []\<rparr>
         else st\<lparr>selectedBankIndices := new_Set (map idx shown)\<rparr>)"

definition selectAllUnmatchedLedger ::
  "(rat \<Rightarrow> string) \<Rightarrow> reconciliation_result \<Rightarrow> review_state \<Rightarrow> review_state" where
  "selectAllUnmatchedLedger numStr result st =
     (let shown = filteredUnmatchedLedger numStr result st
      in if length (selectedLedgerIndices st) = length shown \<and> length shown > 0
         then st\<lparr>selectedLedgerIndices := new_Set []\<rparr>
         else st\<lparr>selectedLedgerIndices := new_Set (map idx shown)\<rparr>)"

definition clearSingleBankStatus :: "nat \<Rightarrow> review_state \<Rightarrow> review_state" where
  "clearSingleBankStatus i st = st\<lparr>bankStatuses := (bankStatuses st)(i := None)\<rparr>"

definition clearSingleLedgerStatus :: "nat \<Rightarrow> review_state \<Rightarrow> review_state" where
  "clearSingleLedgerStatus i st = st\<lparr>ledgerStatuses := (ledgerStatuses st)(i := None)\<rparr>"

text \<open>
  The body of the \<^verbatim>\<open>forEach\<close> of \<^verbatim>\<open>applyBulkStatus\<close>, on the copy \<^verbatim>\<open>next\<close>:
  \<^verbatim>\<open>if (status === 'default') delete next[idx]; else next[idx] = status;\<close>
  The call sites pass one of the four status literals.
\<close>

definition tagOne :: "tx_status \<Rightarrow> (nat \<rightharpoonup> tx_status) \<Rightarrow> nat \<Rightarrow> (nat \<rightharpoonup> tx_status)" where
  "tagOne st next i = (if st = Default then next(i := None) else next(i \<mapsto> st))"

definition applyBulkStatus :: "collection \<Rightarrow> tx_status \<Rightarrow> review_state \<Rightarrow> review_state" where
  "applyBulkStatus ty st s =
     (case ty of
        Bank \<Rightarrow>
          (let next = foldl (tagOne st) (bankStatuses s) (selectedBankIndices s)
           in s\<lparr>bankStatuses := next, selectedBankIndices := new_Set []\<rparr>)
      | Ledger \<Rightarrow>
          (let next = foldl (tagOne st) (ledgerStatuses s) (selectedLedgerIndices s)
           in s\<lparr>ledgerStatuses := next, selectedLedgerIndices := new_Set []\<rparr>))"


definition selectionOf :: "collection \<Rightarrow> review_state \<Rightarrow> nat list" where
  "selectionOf ty s = (case ty of Bank \<Rightarrow> selectedBankIndices s | Ledger \<Rightarrow> selectedLedgerIndices s)"



text \<open>The filter and the select-all handler of either collection.\<close>

definition filteredOf ::
  "(rat \<Rightarrow> string) \<Rightarrow> collection \<Rightarrow> reconciliation_result \<Rightarrow> review_state \<Rightarrow> indexed_tx list" where
  "filteredOf numStr ty result s =
     (case ty of
        Bank \<Rightarrow> filteredUnmatchedBank numStr result s
      | Ledger \<Rightarrow> filteredUnmatchedLedger numStr result s)"

definition selectAllOf ::
  "(rat \<Rightarrow> string) \<Rightarrow> collection \<Rightarrow> reconciliation_result \<Rightarrow> review_state \<Rightarrow> review_state" where
  "selectAllOf numStr ty result s =
     (case ty of
        Bank \<Rightarrow> selectAllUnmatchedBank numStr result s
      | Ledger \<Rightarrow> selectAllUnmatchedLedger numStr result s)"

text \<open>
  A state a user reaches from the initial one with two unmatched bank items: select item 1,
  tag it cleared, select item 0, set the status filter to cleared.
\<close>

definition initial_state :: review_state where
  "initial_state =
     \<lparr>searchTerm = [], statusFilter = All, selectedBankIndices = new_Set [],
      selectedLedgerIndices = new_Set [], bankStatuses = Map.empty, ledgerStatuses = Map.empty\<rparr>"

definition two_bank_items :: reconciliation_result where
  "two_bank_items =
     \<lparr>summary = \<lparr>matchedCount = 0, unmatchedBankCount = 2, unmatchedLedgerCount = 0,
                 matchedTotal = 0, unmatchedBankTotal = 125, unmatchedLedgerTotal = 0,
                 ledgerBalance = 5000, bankBalance = 5000, asAtDate = ''2024-03-31''\<rparr>,
      matchedTransactions = [],
      unmatchedBankTransactions =
        [\<lparr>date = ''2024-03-10'', description = ''Fee'', amount = 25, type = Debit, status = None\<rparr>,
         \<lparr>date = ''2024-03-12'', description = ''Transfer'', amount = 100, type = Credit, status = None\<rparr>],
      unmatchedLedgerEntries = []\<rparr>"

definition filtered_state :: review_state where
  "filtered_state =
     (toggleBankSelection 0 (applyBulkStatus Bank Cleared (toggleBankSelection 1 initial_state)))
       \<lparr>statusFilter := Only Cleared\<rparr>"

text \<open>Where the search term is empty the rendering of numbers is never consulted.\<close>

definition noNumStr :: "rat \<Rightarrow> string" where
  "noNumStr x = []"


section \<open>Analytics (\<^verbatim>\<open>Dashboard.tsx\<close>)\<close>

text \<open>
  \<^verbatim>\<open>Array.prototype.sort\<close> with a comparator is a stable sort; it is modelled by
  insertion sort, where an element goes in front of the first element it does not
  compare greater than.
\<close>

fun insert_by :: "('a \<Rightarrow> 'a \<Rightarrow> rat) \<Rightarrow> 'a \<Rightarrow> 'a list \<Rightarrow> 'a list" where
  "insert_by cmp x [] = [x]"
| "insert_by cmp x (y # ys) = (if cmp x y \<le> 0 then x # y # ys else y # insert_by cmp x ys)"

definition js_sort :: "('a \<Rightarrow> 'a \<Rightarrow> rat) \<Rightarrow> 'a list \<Rightarrow> 'a list" where
  "js_sort cmp xs = foldr (insert_by cmp) xs []"

text \<open>
  \<^verbatim>\<open>[...unmatchedBankTransactions, ...unmatchedLedgerEntries]
    .sort((a, b) => b.amount - a.amount).slice(0, 5)\<close>
\<close>

definition topUnmatched :: "reconciliation_result \<Rightarrow> transaction list" where
  "topUnmatched result =
     take 5 (js_sort (\<lambda>a b. amount b - amount a)
               (unmatchedBankTransactions result @ unmatchedLedgerEntries result))"





text \<open>Concrete summaries and a result with seven unmatched items, three of them tied.\<close>

definition example_summary :: "rat \<Rightarrow> summary" where
  "example_summary ledger =
     \<lparr>matchedCount = 12, unmatchedBankCount = 3, unmatchedLedgerCount = 2,
      matchedTotal = 20000, unmatchedBankTotal = 1000, unmatchedLedgerTotal = 700,
      ledgerBalance = ledger, bankBalance = 5000, asAtDate = ''2024-03-31''\<rparr>"

definition mk_tx :: "string \<Rightarrow> rat \<Rightarrow> transaction" where
  "mk_tx d a = \<lparr>date = ''2024-03-01'', description = d, amount = a, type = Debit, status = None\<rparr>"

definition example_result :: reconciliation_result where
  "example_result =
     \<lparr>summary = example_summary 5000,
      matchedTransactions = [],
      unmatchedBankTransactions = [mk_tx ''b0'' 10, mk_tx ''b1'' 50, mk_tx ''b2'' 50],
      unmatchedLedgerEntries = [mk_tx ''l0'' 50, mk_tx ''l1'' 70, mk_tx ''l2'' 5, mk_tx ''l3'' 1]\<rparr>"

section \<open>Document export (\<^verbatim>\<open>downloadUtils.ts\<close>)\<close>

text \<open>
  The document is modelled by the sections \<^verbatim>\<open>generatePdf\<close> emits, in order: the title
  it writes with \<^verbatim>\<open>doc.text\<close> and the head and body it hands to \<^verbatim>\<open>autoTable\<close>.
  The header bar, colours, page breaks and footers are left out. \<open>numFmt\<close> stands for
  \<^verbatim>\<open>Intl.NumberFormat('en-GH', ...).format\<close>.
\<close>

datatype cell = CStr string | CNum rat

record pdf_section =
  title :: string
  head :: "string list"
  body :: "cell list list"

definition formatCurrencyForPdf :: "(rat \<Rightarrow> string) \<Rightarrow> rat \<Rightarrow> string" where
  "formatCurrencyForPdf numFmt a = ''GHS '' @ numFmt a"

text \<open>\<^verbatim>\<open>xs.filter((_, i) => p(i))\<close>\<close>

definition filterByIndex :: "(nat \<Rightarrow> bool) \<Rightarrow> 'a list \<Rightarrow> 'a list" where
  "filterByIndex p xs = map fst (filter (\<lambda>(x, i). p i) (zip xs [0..<length xs]))"

definition txRow :: "(rat \<Rightarrow> string) \<Rightarrow> transaction \<Rightarrow> cell list" where
  "txRow numFmt t = [CStr (date t), CStr (description t), CStr (formatCurrencyForPdf numFmt (amount t))]"

definition pairRow :: "(rat \<Rightarrow> string) \<Rightarrow> matched_pair \<Rightarrow> cell list" where
  "pairRow numFmt p =
     [CStr (date (bankTransaction p)), CStr (description (bankTransaction p)),
      CStr (date (ledgerTransaction p)), CStr (description (ledgerTransaction p)),
      CStr (formatCurrencyForPdf numFmt (amount (bankTransaction p)))]"

definition summarySection :: "(rat \<Rightarrow> string) \<Rightarrow> summary \<Rightarrow> pdf_section" where
  "summarySection numFmt s =
     \<lparr>title = ''1. Executive Summary'',
      head = [''Metric'', ''Transaction Count'', ''Net Value (GHS)''],
      body =
        [[CStr ''Successfully Matched'', CNum (matchedCount s),
          CStr (formatCurrencyForPdf numFmt (matchedTotal s))],
         [CStr ''Outstanding Bank Items'', CNum (unmatchedBankCount s),
          CStr (formatCurrencyForPdf numFmt (unmatchedBankTotal s))],
         [CStr ''Outstanding Ledger Items'', CNum (unmatchedLedgerCount s),
          CStr (formatCurrencyForPdf numFmt (unmatchedLedgerTotal s))]]\<rparr>"

definition filteredMark :: "pdf_export_config \<Rightarrow> string" where
  "filteredMark config = (if onlySelectedItems config then '' [Filtered]'' else [])"

text \<open>
  The optional parameters \<^verbatim>\<open>selectedBankIndices?\<close> and \<^verbatim>\<open>selectedLedgerIndices?\<close>
  are options; a \<^verbatim>\<open>Set\<close> that is passed is truthy, also when it is empty.
\<close>

definition generatePdf ::
  "(rat \<Rightarrow> string) \<Rightarrow> reconciliation_result \<Rightarrow> pdf_export_config
     \<Rightarrow> nat list option \<Rightarrow> nat list option \<Rightarrow> pdf_section list" where
  "generatePdf numFmt result config selBank selLedger =
     (let bankList =
            (if onlySelectedItems config
             then (case selBank of
                     Some sel \<Rightarrow> filterByIndex (\<lambda>i. i \<in> set sel) (unmatchedBankTransactions result)
                   | None \<Rightarrow> unmatchedBankTransactions result)
             else unmatchedBankTransactions result);
          ledgerList =
            (if onlySelectedItems config
             then (case selLedger of
                     Some sel \<Rightarrow> filterByIndex (\<lambda>i. i \<in> set sel) (unmatchedLedgerEntries result)
                   | None \<Rightarrow> unmatchedLedgerEntries result)
             else unmatchedLedgerEntries result)
      in
        (if includeSummary config then [summarySection numFmt (summary result)] else [])
        @ (if includeMatches config \<and> length (matchedTransactions result) > 0
           then [\<lparr>title = ''2. Verified Matches ('' @ show_nat (length (matchedTransactions result)) @ '')'',
                  head = [''Bank Date'', ''Statement Narrative'', ''Ledger Date'',
                          ''Internal Reference'', ''Amount''],
                  body = map (pairRow numFmt) (matchedTransactions result)\<rparr>]
           else [])
        @ (if includeUnmatchedBank config \<and> length bankList > 0
           then [\<lparr>title = ''3. Unmatched Bank Items ('' @ show_nat (length bankList) @ '')''
                          @ filteredMark config,
                  head = [''Date'', ''Transaction Description'', ''Value''],
                  body = map (txRow numFmt) bankList\<rparr>]
           else [])
        @ (if includeUnmatchedLedger config \<and> length ledgerList > 0
           then [\<lparr>title = ''4. Unmatched Ledger Entries ('' @ show_nat (length ledgerList) @ '')''
                          @ filteredMark config,
                  head = [''Date'', ''General Ledger Description'', ''Value''],
                  body = map (txRow numFmt) ledgerList\<rparr>]
           else []))"

text \<open>The sections of a document whose title starts with a given text.\<close>

definition sectionsTitled :: "string \<Rightarrow> pdf_section list \<Rightarrow> pdf_section list" where
  "sectionsTitled pre doc = filter (\<lambda>sec. startsWith (title sec) pre) doc"

text \<open>The table heads and the export configuration of the selected-items scenario.\<close>

definition bankHead :: "string list" where
  "bankHead = [''Date'', ''Transaction Description'', ''Value'']"

definition ledgerHead :: "string list" where
  "ledgerHead = [''Date'', ''General Ledger Description'', ''Value'']"

definition matchesHead :: "string list" where
  "matchesHead = [''Bank Date'', ''Statement Narrative'', ''Ledger Date'', ''Internal Reference'', ''Amount'']"

definition selected_only_config :: pdf_export_config where
  "selected_only_config =
     \<lparr>includeSummary = True, includeMatches = False, includeUnmatchedBank = True,
      includeUnmatchedLedger = False, onlySelectedItems = True\<rparr>"

section \<open>Lemmas on the sanitizer\<close>

lemma getProp_Inr: "getProp v k = Inr x \<longleftrightarrow> \<not> nullish v \<and> x = ownProp v k"
  by (auto simp: getProp_def)

lemma sanitizeTx_eq:
  "sanitizeTx pf t = (if okTx t then Inr (outTx pf t) else Inl TypeError)"
  by (simp add: sanitizeTx_def getProp_def okTx_def outTx_def)

lemma sanitizePair_eq:
  "sanitizePair pf p = (if okPair p then Inr (outPair pf p) else Inl TypeError)"
  by (simp add: sanitizePair_def getProp_def okPair_def outPair_def sanitizeTx_eq okTx_def)

lemma mapE_eq:
  assumes "\<And>x. f x = (if ok x then Inr (g x) else Inl TypeError)"
  shows "mapE f xs = (if list_all ok xs then Inr (map g xs) else Inl TypeError)"
  by (induction xs) (simp_all add: assms)

lemma js_map_orEmpty:
  assumes "\<And>x. f x = (if ok x then Inr (g x) else Inl TypeError)"
  shows "js_map f (orEmpty v) = (if okColl ok v then Inr (map g (items v)) else Inl TypeError)"
proof (cases "orEmpty v")
  case (JArr xs)
  then show ?thesis
    by (simp add: okColl_def items_def mapE_eq [of f ok g, OF assms])
qed (simp_all add: okColl_def items_def)

lemma ownProp_outTx_amount:
  "ownProp (outTx pf t) ''amount'' = JNum (parseAmount pf (amountOf t))"
  by (simp add: outTx_def amountOf_def update_conv')

lemma sumAmounts_outTx:
  "js_reduce addAmount (map (outTx pf) ts) (JNum s)
     = Inr (JNum (s + sum_list (map (\<lambda>t. parseAmount pf (amountOf t)) ts)))"
proof (induction ts arbitrary: s)
  case Nil
  show ?case by simp
next
  case (Cons t ts)
  have "addAmount (JNum s) (outTx pf t) = Inr (JNum (s + parseAmount pf (amountOf t)))"
    by (simp add: addAmount_def getProp_def nullish_def ownProp_outTx_amount) (simp add: outTx_def)
  then show ?case
    by (simp add: Cons.IH add.assoc)
qed

lemma sumAmounts_outPair:
  "js_reduce addBankAmount (map (outPair pf) ps) (JNum s)
     = Inr (JNum (s + sum_list (map (\<lambda>p. parseAmount pf (amountOf (ownProp p ''bankTransaction''))) ps)))"
proof (induction ps arbitrary: s)
  case Nil
  show ?case by simp
next
  case (Cons p ps)
  have "addBankAmount (JNum s) (outPair pf p)
          = Inr (JNum (s + parseAmount pf (amountOf (ownProp p ''bankTransaction''))))"
    by (simp add: addBankAmount_def getProp_def nullish_def outPair_def ownProp_outTx_amount)
       (simp add: outTx_def)
  then show ?case
    by (simp add: Cons.IH add.assoc)
qed

lemma sanitize_eq:
  "sanitize pf rawResult = (if wellShaped rawResult then Inr (outResult pf rawResult) else Inl TypeError)"
proof (cases "nullish rawResult")
  case True
  then show ?thesis by (simp add: sanitize_def getProp_def wellShaped_def)
next
  case False
  then show ?thesis
    by (simp add: sanitize_def getProp_def wellShaped_def outResult_def outSummary_def
        js_map_orEmpty [of "sanitizePair pf" okPair "outPair pf", OF sanitizePair_eq]
        js_map_orEmpty [of "sanitizeTx pf" okTx "outTx pf", OF sanitizeTx_eq]
        sumAmounts_outTx sumAmounts_outPair)
qed

lemma reconcileFiles_sanitize_eq:
  "reconcileFiles_sanitize pf rawResult =
     (if wellShaped rawResult then Inr (outResult pf rawResult)
      else Inl (ReconciliationFailed TypeError))"
  by (simp add: reconcileFiles_sanitize_def sanitize_eq)

lemma summaryOf_outResult: "summaryOf (outResult pf raw) = JObj (outSummary pf raw)"
  by (simp add: summaryOf_def outResult_def)

lemma matchedOf_outResult:
  "matchedOf (outResult pf raw) = map (outPair pf) (items (ownProp raw ''matchedTransactions''))"
  by (simp add: matchedOf_def outResult_def elems_def)

lemma unmatchedBankOf_outResult:
  "unmatchedBankOf (outResult pf raw) = map (outTx pf) (items (ownProp raw ''unmatchedBankTransactions''))"
  by (simp add: unmatchedBankOf_def outResult_def elems_def)

lemma unmatchedLedgerOf_outResult:
  "unmatchedLedgerOf (outResult pf raw) = map (outTx pf) (items (ownProp raw ''unmatchedLedgerEntries''))"
  by (simp add: unmatchedLedgerOf_def outResult_def elems_def)

lemmas readers_outResult =
  summaryOf_outResult matchedOf_outResult unmatchedBankOf_outResult unmatchedLedgerOf_outResult

lemma map_of_setProps:
  "map_of (setProps new old) k =
     (case map_of (rev new) k of Some v \<Rightarrow> Some v | None \<Rightarrow> map_of old k)"
proof (induction new arbitrary: old)
  case Nil
  show ?case by (simp add: setProps_def)
next
  case (Cons kv new)
  obtain k' v where kv: "kv = (k', v)" by (cases kv)
  have "setProps (kv # new) old = setProps new (AList.update k' v old)"
    by (simp add: setProps_def kv)
  then show ?case
    by (simp add: Cons.IH kv update_conv' map_add_def split: option.splits)
qed



lemma outSummary_other:
  "k \<notin> set recomputedKeys \<Longrightarrow>
     map_of (outSummary pf raw) k = map_of (spread (ownProp raw ''summary'')) k"
  by (simp add: outSummary_def map_of_setProps recomputedKeys_def)

lemma amountOf_outTx: "amountOf (outTx pf t) = JNum (parseAmount pf (amountOf t))"
  by (simp add: outTx_def amountOf_def update_conv')

lemma bankLeg_outPair: "bankLeg (outPair pf p) = outTx pf (bankLeg p)"
  by (simp add: outPair_def bankLeg_def)

lemma ledgerLeg_outPair: "ledgerLeg (outPair pf p) = outTx pf (ledgerLeg p)"
  by (simp add: outPair_def ledgerLeg_def)

lemma spread_outTx:
  "k \<noteq> ''amount'' \<Longrightarrow> map_of (spread (outTx pf t)) k = map_of (spread t) k"
  by (simp add: outTx_def update_conv')

lemma parseAmount_cases:
  "parseAmount pf v = \<bar>case pf v of None \<Rightarrow> 0 | Some x \<Rightarrow> x\<bar>"
  by (simp add: parseAmount_def orZero_def split: option.splits)

lemma sanitized_Inr:
  "reconcileFiles_sanitize pf rawResult = Inr r \<Longrightarrow> wellShaped rawResult \<and> r = outResult pf rawResult"
  by (simp add: reconcileFiles_sanitize_eq split: if_splits)

lemma example_raw_wellShaped: "wellShaped example_raw"
  by code_simp

lemma example_raw_out: "outResult parseFloat_dec example_raw = example_out"
  by (simp add: example_raw_def example_out_def outResult_def items_def orEmpty_def outPair_def outTx_def
      outSummary_def setProps_def amountOf_def parseAmount_def orZero_def
      strDecimalPrefix_def is_digit_def is_space_def digits_val_def)

lemma example_sanitized: "reconcileFiles_sanitize parseFloat_dec example_raw = Inr example_out"
  by (simp add: reconcileFiles_sanitize_eq example_raw_wellShaped example_raw_out)

section \<open>Claims on the sanitizer\<close>



lemma parseAmount_nonneg: "0 \<le> parseAmount pf v"
  by (simp add: parseAmount_def)

text \<open>
  Claim C4. Whenever the sanitizer returns a result, in each of the four places a
  transaction occurs (bank leg and ledger leg of a matched pair, unmatched bank item,
  unmatched ledger entry) the sanitized amount is the number \<open>|x|\<close>, where \<open>x\<close> is what
  \<^verbatim>\<open>parseFloat\<close> makes of the raw amount, or \<open>0\<close> when that is \<^verbatim>\<open>NaN\<close> (a
  non-numeric or missing amount); so every sanitized amount is a number \<open>\<ge> 0\<close>.
\<close>

theorem amounts_coerced:
  assumes "reconcileFiles_sanitize pf rawResult = Inr r"
  shows "map (\<lambda>p. amountOf (bankLeg p)) (matchedOf r)
           = map (\<lambda>p. JNum \<bar>case pf (amountOf (bankLeg p)) of None \<Rightarrow> 0 | Some x \<Rightarrow> x\<bar>)
               (items (ownProp rawResult ''matchedTransactions''))
       \<and> map (\<lambda>p. amountOf (ledgerLeg p)) (matchedOf r)
           = map (\<lambda>p. JNum \<bar>case pf (amountOf (ledgerLeg p)) of None \<Rightarrow> 0 | Some x \<Rightarrow> x\<bar>)
               (items (ownProp rawResult ''matchedTransactions''))
       \<and> map amountOf (unmatchedBankOf r)
           = map (\<lambda>t. JNum \<bar>case pf (amountOf t) of None \<Rightarrow> 0 | Some x \<Rightarrow> x\<bar>)
               (items (ownProp rawResult ''unmatchedBankTransactions''))
       \<and> map amountOf (unmatchedLedgerOf r)
           = map (\<lambda>t. JNum \<bar>case pf (amountOf t) of None \<Rightarrow> 0 | Some x \<Rightarrow> x\<bar>)
               (items (ownProp rawResult ''unmatchedLedgerEntries''))
       \<and> (\<forall>t \<in> set (map bankLeg (matchedOf r) @ map ledgerLeg (matchedOf r)
                       @ unmatchedBankOf r @ unmatchedLedgerOf r).
            \<exists>x. amountOf t = JNum x \<and> 0 \<le> x)"
proof -
  from assms have r: "r = outResult pf rawResult"
    by (simp add: sanitized_Inr)
  have b: "map (\<lambda>p. amountOf (bankLeg p)) (matchedOf r)
           = map (\<lambda>p. JNum \<bar>case pf (amountOf (bankLeg p)) of None \<Rightarrow> 0 | Some x \<Rightarrow> x\<bar>)
               (items (ownProp rawResult ''matchedTransactions''))"
    by (simp add: r readers_outResult bankLeg_outPair amountOf_outTx parseAmount_cases)
  have l: "map (\<lambda>p. amountOf (ledgerLeg p)) (matchedOf r)
           = map (\<lambda>p. JNum \<bar>case pf (amountOf (ledgerLeg p)) of None \<Rightarrow> 0 | Some x \<Rightarrow> x\<bar>)
               (items (ownProp rawResult ''matchedTransactions''))"
    by (simp add: r readers_outResult ledgerLeg_outPair amountOf_outTx parseAmount_cases)
  have ub: "map amountOf (unmatchedBankOf r)
           = map (\<lambda>t. JNum \<bar>case pf (amountOf t) of None \<Rightarrow> 0 | Some x \<Rightarrow> x\<bar>)
               (items (ownProp rawResult ''unmatchedBankTransactions''))"
    by (simp add: r readers_outResult amountOf_outTx parseAmount_cases)
  have ul: "map amountOf (unmatchedLedgerOf r)
           = map (\<lambda>t. JNum \<bar>case pf (amountOf t) of None \<Rightarrow> 0 | Some x \<Rightarrow> x\<bar>)
               (items (ownProp rawResult ''unmatchedLedgerEntries''))"
    by (simp add: r readers_outResult amountOf_outTx parseAmount_cases)
  have pos: "\<forall>t \<in> set (map bankLeg (matchedOf r) @ map ledgerLeg (matchedOf r)
                       @ unmatchedBankOf r @ unmatchedLedgerOf r).
            \<exists>x. amountOf t = JNum x \<and> 0 \<le> x"
    by (auto simp: r readers_outResult bankLeg_outPair ledgerLeg_outPair amountOf_outTx
        parseAmount_nonneg)
  from b l ub ul pos show ?thesis by blast
qed

theorem amounts_coerced_witness:
  "reconcileFiles_sanitize parseFloat_dec example_raw = Inr example_out
   \<and> map (\<lambda>p. amountOf (bankLeg p)) (matchedOf example_out) = [JNum 3500]
   \<and> map (\<lambda>p. amountOf (ledgerLeg p)) (matchedOf example_out) = [JNum 3400]
   \<and> map amountOf (unmatchedBankOf example_out) = [JNum 25]
   \<and> map amountOf (unmatchedLedgerOf example_out) = []"
proof -
  have i: "items (ownProp example_raw ''matchedTransactions'')
             = [JObj [(''bankTransaction'', JObj [(''date'', JStr ''2024-03-05''), (''description'', JStr ''Acme''),
                         (''amount'', JStr ''3500.00''), (''type'', JStr ''credit'')]),
                      (''ledgerTransaction'', JObj [(''date'', JStr ''2024-03-05''), (''description'', JStr ''Acme Corp''),
                         (''amount'', JNum (- 3400)), (''type'', JStr ''debit'')])]]"
    "items (ownProp example_raw ''unmatchedBankTransactions'')
             = [JObj [(''date'', JStr ''2024-03-10''), (''description'', JStr ''Fee''),
                (''amount'', JNum 25), (''type'', JStr ''debit'')]]"
    "items (ownProp example_raw ''unmatchedLedgerEntries'') = []"
    by (simp_all add: example_raw_def items_def orEmpty_def)
  have p: "strDecimalPrefix ''3500.00'' = Some 3500"
    by (simp add: strDecimalPrefix_def is_digit_def is_space_def digits_val_def)
  from amounts_coerced [OF example_sanitized] show ?thesis
    by (simp add: example_sanitized i bankLeg_def ledgerLeg_def amountOf_def p)
qed

text \<open>
  Claim C10. Whenever the sanitizer returns a result, each output collection has the length
  and the order of the raw collection (of \<^verbatim>\<open>(raw || [])\<close>), every own property of
  every transaction other than \<^verbatim>\<open>amount\<close> is the raw one, and every property of the
  summary other than the six recomputed ones (so \<^verbatim>\<open>ledgerBalance\<close>,
  \<^verbatim>\<open>bankBalance\<close>, \<^verbatim>\<open>asAtDate\<close>) is the raw summary's.
\<close>

theorem only_amount_altered:
  assumes "reconcileFiles_sanitize pf rawResult = Inr r"
  shows "length (matchedOf r) = length (items (ownProp rawResult ''matchedTransactions''))
       \<and> length (unmatchedBankOf r) = length (items (ownProp rawResult ''unmatchedBankTransactions''))
       \<and> length (unmatchedLedgerOf r) = length (items (ownProp rawResult ''unmatchedLedgerEntries''))
       \<and> (\<forall>k. k \<noteq> ''amount'' \<longrightarrow>
             map (\<lambda>p. map_of (spread (bankLeg p)) k) (matchedOf r)
               = map (\<lambda>p. map_of (spread (bankLeg p)) k) (items (ownProp rawResult ''matchedTransactions''))
           \<and> map (\<lambda>p. map_of (spread (ledgerLeg p)) k) (matchedOf r)
               = map (\<lambda>p. map_of (spread (ledgerLeg p)) k) (items (ownProp rawResult ''matchedTransactions''))
           \<and> map (\<lambda>t. map_of (spread t) k) (unmatchedBankOf r)
               = map (\<lambda>t. map_of (spread t) k) (items (ownProp rawResult ''unmatchedBankTransactions''))
           \<and> map (\<lambda>t. map_of (spread t) k) (unmatchedLedgerOf r)
               = map (\<lambda>t. map_of (spread t) k) (items (ownProp rawResult ''unmatchedLedgerEntries'')))
       \<and> (\<forall>k. k \<notin> set recomputedKeys \<longrightarrow>
             map_of (spread (summaryOf r)) k = map_of (spread (ownProp rawResult ''summary'')) k)"
proof -
  from assms have r: "r = outResult pf rawResult"
    by (simp add: sanitized_Inr)
  have len: "length (matchedOf r) = length (items (ownProp rawResult ''matchedTransactions''))"
    "length (unmatchedBankOf r) = length (items (ownProp rawResult ''unmatchedBankTransactions''))"
    "length (unmatchedLedgerOf r) = length (items (ownProp rawResult ''unmatchedLedgerEntries''))"
    by (simp_all add: r readers_outResult)
  have fields: "map (\<lambda>p. map_of (spread (bankLeg p)) k) (matchedOf r)
               = map (\<lambda>p. map_of (spread (bankLeg p)) k) (items (ownProp rawResult ''matchedTransactions''))
           \<and> map (\<lambda>p. map_of (spread (ledgerLeg p)) k) (matchedOf r)
               = map (\<lambda>p. map_of (spread (ledgerLeg p)) k) (items (ownProp rawResult ''matchedTransactions''))
           \<and> map (\<lambda>t. map_of (spread t) k) (unmatchedBankOf r)
               = map (\<lambda>t. map_of (spread t) k) (items (ownProp rawResult ''unmatchedBankTransactions''))
           \<and> map (\<lambda>t. map_of (spread t) k) (unmatchedLedgerOf r)
               = map (\<lambda>t. map_of (spread t) k) (items (ownProp rawResult ''unmatchedLedgerEntries''))"
    if "k \<noteq> ''amount''" for k
    using that
    by (simp add: r readers_outResult bankLeg_outPair ledgerLeg_outPair spread_outTx)
  have summ: "map_of (spread (summaryOf r)) k = map_of (spread (ownProp rawResult ''summary'')) k"
    if "k \<notin> set recomputedKeys" for k
    using that by (simp add: r readers_outResult outSummary_other)
  have f: "\<forall>k. k \<noteq> ''amount'' \<longrightarrow>
             map (\<lambda>p. map_of (spread (bankLeg p)) k) (matchedOf r)
               = map (\<lambda>p. map_of (spread (bankLeg p)) k) (items (ownProp rawResult ''matchedTransactions''))
           \<and> map (\<lambda>p. map_of (spread (ledgerLeg p)) k) (matchedOf r)
               = map (\<lambda>p. map_of (spread (ledgerLeg p)) k) (items (ownProp rawResult ''matchedTransactions''))
           \<and> map (\<lambda>t. map_of (spread t) k) (unmatchedBankOf r)
               = map (\<lambda>t. map_of (spread t) k) (items (ownProp rawResult ''unmatchedBankTransactions''))
           \<and> map (\<lambda>t. map_of (spread t) k) (unmatchedLedgerOf r)
               = map (\<lambda>t. map_of (spread t) k) (items (ownProp rawResult ''unmatchedLedgerEntries''))"
    by (intro allI impI) (rule fields)
  have s: "\<forall>k. k \<notin> set recomputedKeys \<longrightarrow>
             map_of (spread (summaryOf r)) k = map_of (spread (ownProp rawResult ''summary'')) k"
    by (intro allI impI) (rule summ)
  show ?thesis
    using len f s by (intro conjI) assumption+
qed

theorem only_amount_altered_witness:
  "reconcileFiles_sanitize parseFloat_dec example_raw = Inr example_out
   \<and> length (matchedOf example_out) = length (items (ownProp example_raw ''matchedTransactions''))
   \<and> map (\<lambda>p. map_of (spread (bankLeg p)) ''description'') (matchedOf example_out)
       = map (\<lambda>p. map_of (spread (bankLeg p)) ''description'') (items (ownProp example_raw ''matchedTransactions''))
   \<and> map (\<lambda>t. map_of (spread t) ''date'') (unmatchedBankOf example_out)
       = map (\<lambda>t. map_of (spread t) ''date'') (items (ownProp example_raw ''unmatchedBankTransactions''))
   \<and> map (\<lambda>t. map_of (spread t) ''date'') (unmatchedBankOf example_out) = [Some (JStr ''2024-03-10'')]
   \<and> map_of (spread (summaryOf example_out)) ''asAtDate''
       = map_of (spread (ownProp example_raw ''summary'')) ''asAtDate''
   \<and> map_of (spread (summaryOf example_out)) ''asAtDate'' = Some (JStr ''2024-03-31'')"
proof -
  have k: "''description'' \<noteq> ''amount''" "''date'' \<noteq> ''amount''"
    "''asAtDate'' \<notin> set recomputedKeys"
    by (simp_all add: recomputedKeys_def)
  have v: "map (\<lambda>t. map_of (spread t) ''date'') (unmatchedBankOf example_out) = [Some (JStr ''2024-03-10'')]"
    "map_of (spread (summaryOf example_out)) ''asAtDate'' = Some (JStr ''2024-03-31'')"
    by (simp_all add: example_out_def unmatchedBankOf_def summaryOf_def elems_def)
  note t = only_amount_altered [OF example_sanitized]
  note f = t [THEN conjunct2, THEN conjunct2, THEN conjunct2, THEN conjunct1, rule_format]
  note s = t [THEN conjunct2, THEN conjunct2, THEN conjunct2, THEN conjunct2, rule_format]
  show ?thesis
    using example_sanitized t [THEN conjunct1] f [OF k(1), THEN conjunct1]
      f [OF k(2), THEN conjunct2, THEN conjunct2, THEN conjunct1] v(1) s [OF k(3)] v(2)
    by (intro conjI) assumption+
qed









section \<open>Claims on the review state\<close>


lemma new_Set_Nil: "new_Set [] = []"
  by (simp add: new_Set_def)

lemma foldl_Set_add:
  "distinct (acc @ xs) \<Longrightarrow> foldl (\<lambda>s x. Set_add x s) acc xs = acc @ xs"
  by (induction xs arbitrary: acc) (auto simp: Set_add_def)

lemma new_Set_distinct: "distinct xs \<Longrightarrow> new_Set xs = xs"
  using foldl_Set_add [of "[]" xs] by (simp add: new_Set_def)

lemma idx_filteredUnmatched:
  "map idx (filteredUnmatched numStr needle statuses sf txs)
     = map snd (filter (\<lambda>(t, i).
          (needle = [] \<or> str_includes (toLowerCase (description t)) (toLowerCase needle)
            \<or> str_includes (date t) needle \<or> str_includes (numStr (amount t)) needle)
          \<and> (sf = All \<or> Only (case statuses i of None \<Rightarrow> Default | Some st \<Rightarrow> st) = sf))
        (zip txs [0..<length txs]))"
  by (simp add: filteredUnmatched_def filter_map comp_def case_prod_unfold Let_def)

lemma distinct_filteredUnmatched:
  "distinct (map idx (filteredUnmatched numStr needle statuses sf txs))"
  unfolding idx_filteredUnmatched
  by (rule distinct_map_filter) simp

lemma distinct_filteredOf: "distinct (map idx (filteredOf numStr ty result s))"
  by (cases ty)
     (simp_all add: filteredOf_def filteredUnmatchedBank_def filteredUnmatchedLedger_def
        distinct_filteredUnmatched)

lemma selectionOf_selectAllOf:
  "selectionOf ty (selectAllOf numStr ty result s)
     = (if length (selectionOf ty s) = length (filteredOf numStr ty result s)
           \<and> filteredOf numStr ty result s \<noteq> []
        then [] else map idx (filteredOf numStr ty result s))"
proof (cases ty)
  case Bank
  have "new_Set (map idx (filteredUnmatchedBank numStr result s)) = map idx (filteredUnmatchedBank numStr result s)"
    using distinct_filteredOf [of numStr Bank result s]
    by (simp add: filteredOf_def new_Set_distinct)
  then show ?thesis
    by (simp add: Bank selectionOf_def selectAllOf_def filteredOf_def selectAllUnmatchedBank_def
        Let_def new_Set_Nil)
next
  case Ledger
  have "new_Set (map idx (filteredUnmatchedLedger numStr result s)) = map idx (filteredUnmatchedLedger numStr result s)"
    using distinct_filteredOf [of numStr Ledger result s]
    by (simp add: filteredOf_def new_Set_distinct)
  then show ?thesis
    by (simp add: Ledger selectionOf_def selectAllOf_def filteredOf_def selectAllUnmatchedLedger_def
        Let_def new_Set_Nil)
qed

lemma filteredOf_selectAllOf:
  "filteredOf numStr ty result (selectAllOf numStr ty result s) = filteredOf numStr ty result s"
  by (cases ty)
     (simp_all add: filteredOf_def selectAllOf_def selectAllUnmatchedBank_def
        selectAllUnmatchedLedger_def filteredUnmatchedBank_def filteredUnmatchedLedger_def Let_def)

text \<open>
  Claim C3, as amended. Select-all clears the selection when the selection has as many
  members as there are visible (filtered) items and at least one item is visible; otherwise
  it sets the selection to exactly the visible indices. The test compares sizes, not
  members: it agrees with the equality of the two sets when they are equal (third
  conjunct), and calling select-all twice from an empty selection gives the empty
  selection again.
\<close>

theorem selectAll_toggles_by_size:
  "(length (selectionOf ty s) = length (filteredOf numStr ty result s)
      \<and> filteredOf numStr ty result s \<noteq> []
      \<longrightarrow> selectionOf ty (selectAllOf numStr ty result s) = [])
   \<and> (\<not> (length (selectionOf ty s) = length (filteredOf numStr ty result s)
           \<and> filteredOf numStr ty result s \<noteq> [])
      \<longrightarrow> selectionOf ty (selectAllOf numStr ty result s) = map idx (filteredOf numStr ty result s))
   \<and> (distinct (selectionOf ty s)
        \<and> set (selectionOf ty s) = set (map idx (filteredOf numStr ty result s))
        \<and> selectionOf ty s \<noteq> []
      \<longrightarrow> selectionOf ty (selectAllOf numStr ty result s) = [])
   \<and> (selectionOf ty s = []
      \<longrightarrow> selectionOf ty (selectAllOf numStr ty result (selectAllOf numStr ty result s)) = [])"
proof -
  let ?shown = "filteredOf numStr ty result s"
  have a: "length (selectionOf ty s) = length ?shown \<and> ?shown \<noteq> []
      \<longrightarrow> selectionOf ty (selectAllOf numStr ty result s) = []"
    by (simp add: selectionOf_selectAllOf)
  have b: "\<not> (length (selectionOf ty s) = length ?shown \<and> ?shown \<noteq> [])
      \<longrightarrow> selectionOf ty (selectAllOf numStr ty result s) = map idx ?shown"
    by (simp add: selectionOf_selectAllOf)
  have c: "distinct (selectionOf ty s) \<and> set (selectionOf ty s) = set (map idx ?shown)
        \<and> selectionOf ty s \<noteq> []
      \<longrightarrow> selectionOf ty (selectAllOf numStr ty result s) = []"
  proof (intro impI, elim conjE)
    assume d: "distinct (selectionOf ty s)"
      and e: "set (selectionOf ty s) = set (map idx ?shown)"
      and n: "selectionOf ty s \<noteq> []"
    have "length (selectionOf ty s) = card (set (selectionOf ty s))"
      using d by (simp add: distinct_card)
    also have "\<dots> = card (set (map idx ?shown))"
      by (simp only: e)
    also have "\<dots> = length (map idx ?shown)"
      using distinct_filteredOf [of numStr ty result s] by (rule distinct_card)
    finally have len: "length (selectionOf ty s) = length ?shown"
      by simp
    from n len have "?shown \<noteq> []"
      by auto
    with len show "selectionOf ty (selectAllOf numStr ty result s) = []"
      by (simp add: selectionOf_selectAllOf)
  qed
  have d: "selectionOf ty s = []
      \<longrightarrow> selectionOf ty (selectAllOf numStr ty result (selectAllOf numStr ty result s)) = []"
    by (simp add: selectionOf_selectAllOf filteredOf_selectAllOf)
  show ?thesis
    using a b c d by (intro conjI) assumption+
qed

lemma filtered_state_eq:
  "filtered_state =
     \<lparr>searchTerm = [], statusFilter = Only Cleared, selectedBankIndices = [0],
      selectedLedgerIndices = [], bankStatuses = [1 \<mapsto> Cleared], ledgerStatuses = Map.empty\<rparr>"
  by (simp add: filtered_state_def initial_state_def toggleBankSelection_def applyBulkStatus_def
      new_Set_def Set_add_def Set_delete_def tagOne_def Let_def)

lemma filtered_state_shown:
  "map idx (filteredOf noNumStr Bank two_bank_items filtered_state) = [1]"
  by (simp add: filtered_state_eq filteredOf_def filteredUnmatchedBank_def filteredUnmatched_def
      two_bank_items_def Let_def upt_rec)

text \<open>
  Claim C3 as stated fails: with item 0 selected and only item 1 visible the two sets
  differ, yet select-all clears the selection instead of selecting item 1.
\<close>

theorem selectAll_clears_other_selection:
  "filtered_state =
     \<lparr>searchTerm = [], statusFilter = Only Cleared, selectedBankIndices = [0],
      selectedLedgerIndices = [], bankStatuses = [1 \<mapsto> Cleared], ledgerStatuses = Map.empty\<rparr>
   \<and> selectionOf Bank filtered_state = [0]
   \<and> map idx (filteredOf noNumStr Bank two_bank_items filtered_state) = [1]
   \<and> set (selectionOf Bank filtered_state)
       \<noteq> set (map idx (filteredOf noNumStr Bank two_bank_items filtered_state))
   \<and> selectionOf Bank (selectAllOf noNumStr Bank two_bank_items filtered_state) = []
   \<and> selectedBankIndices (selectAllUnmatchedBank noNumStr two_bank_items filtered_state) = []"
proof -
  have a: "selectionOf Bank filtered_state = [0]"
    by (simp add: filtered_state_eq selectionOf_def)
  have c: "set (selectionOf Bank filtered_state)
       \<noteq> set (map idx (filteredOf noNumStr Bank two_bank_items filtered_state))"
    by (simp add: a filtered_state_shown)
  have len: "length (filteredOf noNumStr Bank two_bank_items filtered_state) = 1"
    using filtered_state_shown [THEN arg_cong, of length] by simp
  then have ne: "filteredOf noNumStr Bank two_bank_items filtered_state \<noteq> []"
    by auto
  have d: "selectionOf Bank (selectAllOf noNumStr Bank two_bank_items filtered_state) = []"
    using len ne by (simp add: selectionOf_selectAllOf a)
  have e: "selectedBankIndices (selectAllUnmatchedBank noNumStr two_bank_items filtered_state) = []"
    using d by (simp add: selectionOf_def selectAllOf_def)
  show ?thesis
    using filtered_state_eq a filtered_state_shown c d e by (intro conjI) assumption+
qed

theorem selectAll_toggles_by_size_witness:
  "selectionOf Bank initial_state = []
   \<and> selectionOf Bank (selectAllOf noNumStr Bank two_bank_items initial_state) = [0, 1]
   \<and> selectionOf Bank (selectAllOf noNumStr Bank two_bank_items
        (selectAllOf noNumStr Bank two_bank_items initial_state)) = []
   \<and> length (selectionOf Bank filtered_state)
       = length (filteredOf noNumStr Bank two_bank_items filtered_state)
   \<and> selectionOf Bank (selectAllOf noNumStr Bank two_bank_items filtered_state) = []"
proof -
  note t = selectAll_toggles_by_size [of Bank initial_state noNumStr two_bank_items]
  note u = selectAll_toggles_by_size [of Bank filtered_state noNumStr two_bank_items]
  have a: "selectionOf Bank initial_state = []"
    by (simp add: initial_state_def selectionOf_def new_Set_def)
  have sh: "map idx (filteredOf noNumStr Bank two_bank_items initial_state) = [0, 1]"
    by (simp add: initial_state_def filteredOf_def filteredUnmatchedBank_def filteredUnmatched_def
      two_bank_items_def Let_def upt_rec)
  have ne: "\<not> (length (selectionOf Bank initial_state)
                = length (filteredOf noNumStr Bank two_bank_items initial_state)
              \<and> filteredOf noNumStr Bank two_bank_items initial_state \<noteq> [])"
    using sh a by auto
  have b: "selectionOf Bank (selectAllOf noNumStr Bank two_bank_items initial_state) = [0, 1]"
    using t [THEN conjunct2, THEN conjunct1] ne sh by simp
  have c: "selectionOf Bank (selectAllOf noNumStr Bank two_bank_items
        (selectAllOf noNumStr Bank two_bank_items initial_state)) = []"
    using t [THEN conjunct2, THEN conjunct2, THEN conjunct2] a by (rule mp)
  have l: "length (selectionOf Bank filtered_state)
       = length (filteredOf noNumStr Bank two_bank_items filtered_state)"
    using filtered_state_shown [THEN arg_cong, of length]
    by (simp add: filtered_state_eq selectionOf_def)
  have n: "filteredOf noNumStr Bank two_bank_items filtered_state \<noteq> []"
    using filtered_state_shown by auto
  have d: "selectionOf Bank (selectAllOf noNumStr Bank two_bank_items filtered_state) = []"
    using u [THEN conjunct1] l n by simp
  show ?thesis
    using a b c l d by (intro conjI) assumption+
qed


section \<open>Claims on the analytics\<close>




lemma insert_by_amount:
  "insert_by (\<lambda>a b. amount b - amount a) x ys = insort_key (\<lambda>t. - amount t) x ys"
  by (induction ys) simp_all

lemma js_sort_amount:
  "js_sort (\<lambda>a b. amount b - amount a) xs = sort_key (\<lambda>t. - amount t) xs"
  by (induction xs) (simp_all add: js_sort_def insert_by_amount)

lemma sort_desc_sorted:
  "sorted_wrt (\<lambda>a b. amount b \<le> amount a) (sort_key (\<lambda>t. - amount t) (xs :: transaction list))"
proof -
  have "sorted (map (\<lambda>t. - amount t) (sort_key (\<lambda>t. - amount t) xs))"
    by (rule sorted_sort_key)
  then show ?thesis
    by (simp add: sorted_map)
qed

lemma sort_desc_stable:
  "filter (\<lambda>t. amount t = a) (sort_key (\<lambda>t. - amount t) (xs :: transaction list))
     = filter (\<lambda>t. amount t = a) xs"
proof -
  have "filter (\<lambda>t. - amount t = - a) (sort_key (\<lambda>t. - amount t) xs)
          = filter (\<lambda>t. - amount t = - a) xs"
    by (rule sort_key_stable)
  then show ?thesis by simp
qed

text \<open>
  Claim C8. \<^verbatim>\<open>topUnmatched\<close> is the first five items of a list \<open>ys\<close> that is a
  rearrangement of the bank collection followed by the ledger collection, is in descending
  order of amount, and keeps the items of any one amount in their order of the concatenated
  input; with at most five unmatched items it is all of \<open>ys\<close>. The number five is fixed
  in the code.
\<close>

theorem topUnmatched_top5:
  "\<exists>ys. topUnmatched result = take 5 ys
       \<and> mset ys = mset (unmatchedBankTransactions result @ unmatchedLedgerEntries result)
       \<and> sorted_wrt (\<lambda>a b. amount b \<le> amount a) ys
       \<and> (\<forall>a. filter (\<lambda>t. amount t = a) ys
               = filter (\<lambda>t. amount t = a)
                   (unmatchedBankTransactions result @ unmatchedLedgerEntries result))
       \<and> (length (unmatchedBankTransactions result) + length (unmatchedLedgerEntries result) \<le> 5
            \<longrightarrow> topUnmatched result = ys)
       \<and> length (topUnmatched result)
           = min 5 (length (unmatchedBankTransactions result) + length (unmatchedLedgerEntries result))"
proof -
  let ?all = "unmatchedBankTransactions result @ unmatchedLedgerEntries result"
  let ?ys = "sort_key (\<lambda>t. - amount t) ?all"
  have top: "topUnmatched result = take 5 ?ys"
    by (simp add: topUnmatched_def js_sort_amount)
  have m: "mset ?ys = mset ?all"
    by simp
  have len: "length ?ys = length (unmatchedBankTransactions result) + length (unmatchedLedgerEntries result)"
    by simp
  have st: "\<forall>a. filter (\<lambda>t. amount t = a) ?ys = filter (\<lambda>t. amount t = a) ?all"
    by (intro allI) (rule sort_desc_stable)
  have few: "length (unmatchedBankTransactions result) + length (unmatchedLedgerEntries result) \<le> 5
            \<longrightarrow> topUnmatched result = ?ys"
    using len by (simp add: top)
  have n: "length (topUnmatched result)
           = min 5 (length (unmatchedBankTransactions result) + length (unmatchedLedgerEntries result))"
    using len by (simp add: top min.commute)
  show ?thesis
    using top m sort_desc_sorted [of ?all] st few n
    by (intro exI [of _ ?ys] conjI) assumption+
qed

lemma example_top: "topUnmatched example_result
       = [mk_tx ''l1'' 70, mk_tx ''b1'' 50, mk_tx ''b2'' 50, mk_tx ''l0'' 50, mk_tx ''b0'' 10]"
  by (simp add: topUnmatched_def example_result_def js_sort_def mk_tx_def)

theorem topUnmatched_top5_witness:
  "(\<exists>ys. topUnmatched example_result = take 5 ys
       \<and> mset ys = mset (unmatchedBankTransactions example_result @ unmatchedLedgerEntries example_result)
       \<and> sorted_wrt (\<lambda>a b. amount b \<le> amount a) ys)
   \<and> topUnmatched example_result
       = [mk_tx ''l1'' 70, mk_tx ''b1'' 50, mk_tx ''b2'' 50, mk_tx ''l0'' 50, mk_tx ''b0'' 10]
   \<and> length (topUnmatched example_result) = 5"
proof -
  from topUnmatched_top5 [of example_result] obtain ys where
    ys: "topUnmatched example_result = take 5 ys"
      "mset ys = mset (unmatchedBankTransactions example_result @ unmatchedLedgerEntries example_result)"
      "sorted_wrt (\<lambda>a b. amount b \<le> amount a) ys"
    by (elim exE conjE)
  have a: "\<exists>ys. topUnmatched example_result = take 5 ys
       \<and> mset ys = mset (unmatchedBankTransactions example_result @ unmatchedLedgerEntries example_result)
       \<and> sorted_wrt (\<lambda>a b. amount b \<le> amount a) ys"
    using ys by (intro exI [of _ ys] conjI) assumption+
  have l: "length (topUnmatched example_result) = 5"
    by (simp add: example_top)
  show ?thesis
    using a example_top l by (intro conjI) assumption+
qed
section \<open>Claims on the document export\<close>

lemma filterByIndex_nths: "filterByIndex (\<lambda>i. i \<in> A) xs = nths xs A"
  by (simp add: filterByIndex_def nths_def case_prod_unfold)

lemma generatePdf_selected:
  "onlySelectedItems config \<Longrightarrow>
   generatePdf numFmt result config (Some sb) (Some sl) =
     (if includeSummary config then [summarySection numFmt (summary result)] else [])
     @ (if includeMatches config \<and> matchedTransactions result \<noteq> []
        then [\<lparr>title = ''2. Verified Matches ('' @ show_nat (length (matchedTransactions result)) @ '')'',
               head = matchesHead,
               body = map (pairRow numFmt) (matchedTransactions result)\<rparr>]
        else [])
     @ (if includeUnmatchedBank config \<and> nths (unmatchedBankTransactions result) (set sb) \<noteq> []
        then [\<lparr>title = ''3. Unmatched Bank Items (''
                        @ show_nat (length (nths (unmatchedBankTransactions result) (set sb)))
                        @ '') [Filtered]'',
               head = bankHead,
               body = map (txRow numFmt) (nths (unmatchedBankTransactions result) (set sb))\<rparr>]
        else [])
     @ (if includeUnmatchedLedger config \<and> nths (unmatchedLedgerEntries result) (set sl) \<noteq> []
        then [\<lparr>title = ''4. Unmatched Ledger Entries (''
                        @ show_nat (length (nths (unmatchedLedgerEntries result) (set sl)))
                        @ '') [Filtered]'',
               head = ledgerHead,
               body = map (txRow numFmt) (nths (unmatchedLedgerEntries result) (set sl))\<rparr>]
        else [])"
  by (simp add: generatePdf_def filterByIndex_nths filteredMark_def matchesHead_def bankHead_def
      ledgerHead_def Let_def)

lemma sectionsTitled_append:
  "sectionsTitled pre (xs @ ys) = sectionsTitled pre xs @ sectionsTitled pre ys"
  by (simp add: sectionsTitled_def)

lemma sectionsTitled_if:
  "sectionsTitled pre (if c then [sec] else []) = (if c \<and> startsWith (title sec) pre then [sec] else [])"
  by (simp add: sectionsTitled_def)

lemma title_summarySection: "title (summarySection numFmt s) = ''1. Executive Summary''"
  by (simp add: summarySection_def)

text \<open>
  Claim C6. With \<^verbatim>\<open>onlySelectedItems\<close> set and both selection sets passed, the
  Unmatched Bank section holds exactly the rows of the transactions whose position in the
  full collection is in the bank selection, is titled with their count and
  \<^verbatim>\<open>[Filtered]\<close>, and is left out when there is none; likewise for the ledger; the
  Verified Matches section holds every matched pair whatever the selections are. In the
  scenario of the claim the document is the summary followed by one bank section with one
  row.
\<close>

theorem pdf_only_selected_items:
  assumes "onlySelectedItems config"
  shows "sectionsTitled ''3. Unmatched Bank Items'' (generatePdf numFmt result config (Some sb) (Some sl))
           = (if includeUnmatchedBank config \<and> nths (unmatchedBankTransactions result) (set sb) \<noteq> []
              then [\<lparr>title = ''3. Unmatched Bank Items (''
                        @ show_nat (length (nths (unmatchedBankTransactions result) (set sb)))
                        @ '') [Filtered]'',
                     head = bankHead,
                     body = map (txRow numFmt) (nths (unmatchedBankTransactions result) (set sb))\<rparr>]
              else [])
       \<and> sectionsTitled ''4. Unmatched Ledger Entries'' (generatePdf numFmt result config (Some sb) (Some sl))
           = (if includeUnmatchedLedger config \<and> nths (unmatchedLedgerEntries result) (set sl) \<noteq> []
              then [\<lparr>title = ''4. Unmatched Ledger Entries (''
                        @ show_nat (length (nths (unmatchedLedgerEntries result) (set sl)))
                        @ '') [Filtered]'',
                     head = ledgerHead,
                     body = map (txRow numFmt) (nths (unmatchedLedgerEntries result) (set sl))\<rparr>]
              else [])
       \<and> sectionsTitled ''2. Verified Matches'' (generatePdf numFmt result config (Some sb) (Some sl))
           = (if includeMatches config \<and> matchedTransactions result \<noteq> []
              then [\<lparr>title = ''2. Verified Matches ('' @ show_nat (length (matchedTransactions result)) @ '')'',
                     head = matchesHead,
                     body = map (pairRow numFmt) (matchedTransactions result)\<rparr>]
              else [])
       \<and> (config = selected_only_config \<and> unmatchedBankTransactions result = [t0, t1] \<longrightarrow>
            generatePdf numFmt result config (Some [0]) (Some sl)
              = [summarySection numFmt (summary result),
                 \<lparr>title = ''3. Unmatched Bank Items (1) [Filtered]'',
                  head = bankHead,
                  body = [txRow numFmt t0]\<rparr>])"
proof -
  note g = generatePdf_selected [OF assms, of numFmt result sb sl]
  have b: "sectionsTitled ''3. Unmatched Bank Items'' (generatePdf numFmt result config (Some sb) (Some sl))
           = (if includeUnmatchedBank config \<and> nths (unmatchedBankTransactions result) (set sb) \<noteq> []
              then [\<lparr>title = ''3. Unmatched Bank Items (''
                        @ show_nat (length (nths (unmatchedBankTransactions result) (set sb)))
                        @ '') [Filtered]'',
                     head = bankHead,
                     body = map (txRow numFmt) (nths (unmatchedBankTransactions result) (set sb))\<rparr>]
              else [])"
    by (simp add: g sectionsTitled_append sectionsTitled_if title_summarySection)
  have l: "sectionsTitled ''4. Unmatched Ledger Entries'' (generatePdf numFmt result config (Some sb) (Some sl))
           = (if includeUnmatchedLedger config \<and> nths (unmatchedLedgerEntries result) (set sl) \<noteq> []
              then [\<lparr>title = ''4. Unmatched Ledger Entries (''
                        @ show_nat (length (nths (unmatchedLedgerEntries result) (set sl)))
                        @ '') [Filtered]'',
                     head = ledgerHead,
                     body = map (txRow numFmt) (nths (unmatchedLedgerEntries result) (set sl))\<rparr>]
              else [])"
    by (simp add: g sectionsTitled_append sectionsTitled_if title_summarySection)
  have m: "sectionsTitled ''2. Verified Matches'' (generatePdf numFmt result config (Some sb) (Some sl))
           = (if includeMatches config \<and> matchedTransactions result \<noteq> []
              then [\<lparr>title = ''2. Verified Matches ('' @ show_nat (length (matchedTransactions result)) @ '')'',
                     head = matchesHead,
                     body = map (pairRow numFmt) (matchedTransactions result)\<rparr>]
              else [])"
    by (simp add: g sectionsTitled_append sectionsTitled_if title_summarySection)
  have e: "config = selected_only_config \<and> unmatchedBankTransactions result = [t0, t1] \<longrightarrow>
            generatePdf numFmt result config (Some [0]) (Some sl)
              = [summarySection numFmt (summary result),
                 \<lparr>title = ''3. Unmatched Bank Items (1) [Filtered]'',
                  head = bankHead,
                  body = [txRow numFmt t0]\<rparr>]"
  proof (intro impI, elim conjE)
    assume c: "config = selected_only_config" and u: "unmatchedBankTransactions result = [t0, t1]"
    have n: "nths [t0, t1] {0} = [t0]"
      by (simp add: nths_Cons)
    have s1: "show_nat (Suc 0) = ''1''"
      by (simp add: show_nat.simps)
    show "generatePdf numFmt result config (Some [0]) (Some sl)
              = [summarySection numFmt (summary result),
                 \<lparr>title = ''3. Unmatched Bank Items (1) [Filtered]'',
                  head = bankHead,
                  body = [txRow numFmt t0]\<rparr>]"
      using generatePdf_selected [OF assms, of numFmt result "[0]" sl]
      by (simp add: c u n s1 selected_only_config_def)
  qed
  show ?thesis
    using b l m e by (intro conjI) assumption+
qed

theorem pdf_only_selected_items_witness:
  "onlySelectedItems selected_only_config
   \<and> generatePdf (\<lambda>a. ''0.00'') two_bank_items selected_only_config (Some [0]) (Some [])
       = [summarySection (\<lambda>a. ''0.00'') (summary two_bank_items),
          \<lparr>title = ''3. Unmatched Bank Items (1) [Filtered]'',
           head = bankHead,
           body = [[CStr ''2024-03-10'', CStr ''Fee'', CStr ''GHS 0.00'']]\<rparr>]
   \<and> sectionsTitled ''2. Verified Matches''
        (generatePdf (\<lambda>a. ''0.00'') two_bank_items selected_only_config (Some [0]) (Some [])) = []
   \<and> sectionsTitled ''4. Unmatched Ledger Entries''
        (generatePdf (\<lambda>a. ''0.00'') two_bank_items selected_only_config (Some [0]) (Some [])) = []"
proof -
  have h: "onlySelectedItems selected_only_config"
    by (simp add: selected_only_config_def)
  note t = pdf_only_selected_items [OF h, of "\<lambda>a. ''0.00''" two_bank_items "[0]" "[]"
      "\<lparr>date = ''2024-03-10'', description = ''Fee'', amount = 25, type = Debit, status = None\<rparr>"
      "\<lparr>date = ''2024-03-12'', description = ''Transfer'', amount = 100, type = Credit, status = None\<rparr>"]
  have u: "selected_only_config = selected_only_config \<and> unmatchedBankTransactions two_bank_items =
      [\<lparr>date = ''2024-03-10'', description = ''Fee'', amount = 25, type = Debit, status = None\<rparr>,
       \<lparr>date = ''2024-03-12'', description = ''Transfer'', amount = 100, type = Credit, status = None\<rparr>]"
    by (simp add: two_bank_items_def)
  have g: "generatePdf (\<lambda>a. ''0.00'') two_bank_items selected_only_config (Some [0]) (Some [])
       = [summarySection (\<lambda>a. ''0.00'') (summary two_bank_items),
          \<lparr>title = ''3. Unmatched Bank Items (1) [Filtered]'',
           head = bankHead,
           body = [[CStr ''2024-03-10'', CStr ''Fee'', CStr ''GHS 0.00'']]\<rparr>]"
    using t [THEN conjunct2, THEN conjunct2, THEN conjunct2, THEN mp, OF u]
    by (simp add: txRow_def formatCurrencyForPdf_def)
  have m: "sectionsTitled ''2. Verified Matches''
        (generatePdf (\<lambda>a. ''0.00'') two_bank_items selected_only_config (Some [0]) (Some [])) = []"
    using t [THEN conjunct2, THEN conjunct2, THEN conjunct1]
    by (simp add: selected_only_config_def)
  have l: "sectionsTitled ''4. Unmatched Ledger Entries''
        (generatePdf (\<lambda>a. ''0.00'') two_bank_items selected_only_config (Some [0]) (Some [])) = []"
    using t [THEN conjunct2, THEN conjunct1]
    by (simp add: selected_only_config_def)
  show ?thesis
    using h g m l by (intro conjI) assumption+
qed

end
